theory Spec2Isabelle
  imports Complex_Main "HOL-Library.Word"
begin

section \<open>BG Remover API (app.py): data model\<close>

text \<open>
  The service is a Flask application with two pieces of process-wide state: the lazily
  created inference session (the global \<open>session\<close>) and the directory \<open>OUTPUT_DIR\<close>.
  The third-party calls (rembg, PIL, base64, uuid, time, the file system) are parameters
  of the model, collected in the record \<open>env\<close>; every call that can raise returns a sum
  with the exception on the left. Strings are byte strings (UTF-8). The headers that
  \<open>after_request\<close> adds to every response are left out.
\<close>

type_synonym bytes = "8 word list"

text \<open>A Python exception: its class name and \<open>str(e)\<close>.\<close>

datatype exn = Exception string string

fun str_exn :: "exn \<Rightarrow> string" where
  "str_exn (Exception cls msg) = msg"

definition TypeError :: "string \<Rightarrow> exn" where
  "TypeError msg = Exception ''TypeError'' msg"

text \<open>Values produced by \<open>request.get_json\<close> and consumed by \<open>jsonify\<close>.\<close>

datatype json =
    JNull
  | JBool bool
  | JInt int
  | JFloat rat
  | JStr string
  | JArr "json list"
  | JObj "(string \<times> json) list"

text \<open>An uploaded file (werkzeug \<open>FileStorage\<close>): its \<open>filename\<close> and what \<open>read()\<close> returns.\<close>

record upload =
  filename :: "string option"
  content :: bytes

text \<open>
  The parts of the Flask \<open>request\<close> the handlers read. \<open>files\<close> and \<open>args\<close> are multi-dicts
  (indexing and \<open>get\<close> return the first value of a key, \<open>getlist\<close> all of them in order);
  \<open>body\<close> is the parsed JSON body, \<open>None\<close> when the body does not parse, which is what
  \<open>get_json(silent=True, force=True)\<close> maps to Python's \<open>None\<close>.
\<close>

record request =
  files :: "(string \<times> upload) list"
  args :: "(string \<times> string) list"
  is_json :: bool
  body :: "json option"

datatype fmt = PNG | WEBP

text \<open>The records written through \<open>logger\<close>.\<close>

datatype logrec =
    Info_loading string
  | Info_loaded
  | Info_done json string rat
  | Error_msg string

text \<open>
  What a view function hands back to Flask: \<open>jsonify(...)\<close> with a status code,
  \<open>send_file(...)\<close> (content, mimetype, download name, \<open>as_attachment\<close>), or an exception
  that leaves the view function uncaught. For the last one Flask (with \<open>debug=False\<close>)
  answers with status 500 and its own HTML error page.
\<close>

datatype response =
    JsonResp nat json
  | FileResp bytes string string bool
  | Uncaught exn

fun status_code :: "response \<Rightarrow> nat" where
  "status_code (JsonResp code j) = code"
| "status_code (FileResp bs mt name att) = 200"
| "status_code (Uncaught e) = 500"

text \<open>
  The response body is JSON with a string under the key \<open>error\<close>.
\<close>

fun has_error_body :: "response \<Rightarrow> bool" where
  "has_error_body (JsonResp code (JObj kvs)) =
     (case map_of kvs ''error'' of Some (JStr m) \<Rightarrow> True | _ \<Rightarrow> False)"
| "has_error_body r = False"

text \<open>
  The process state: the global \<open>session\<close>, the files of \<open>OUTPUT_DIR\<close> by name, the log,
  and how many readings of the clock and of the random generator have been taken.
\<close>

record 'h state =
  session :: "'h option"
  outputs :: "string \<rightharpoonup> bytes"
  logged :: "logrec list"
  clock_reads :: nat
  uuid_draws :: nat

text \<open>
  The world outside app.py. \<open>rembg_remove\<close> takes the image bytes, the session and the
  \<open>alpha_matting\<close> flag (the thresholds 240, 10, 10 are constants of the call);
  \<open>image_open_rgba\<close> is \<open>Image.open(io.BytesIO(b)).convert("RGBA")\<close>; \<open>image_save\<close> is the
  encoder behind \<open>Image.save\<close> (WEBP with quality 95); \<open>fs_write_error\<close> tells whether
  opening a file of \<open>OUTPUT_DIR\<close> for writing raises; \<open>uuid4 n\<close> is \<open>str\<close> of the n-th
  value drawn from \<open>uuid.uuid4()\<close> and \<open>clock n\<close> the n-th reading of \<open>time.time()\<close>.
\<close>

record ('h, 'i) env =
  environ :: "string \<rightharpoonup> string"
  new_session :: "string \<Rightarrow> exn + 'h"
  rembg_remove :: "bytes \<Rightarrow> 'h \<Rightarrow> bool \<Rightarrow> exn + bytes"
  image_open_rgba :: "bytes \<Rightarrow> exn + 'i"
  image_save :: "'i \<Rightarrow> fmt \<Rightarrow> exn + bytes"
  fs_write_error :: "string \<Rightarrow> exn option"
  uuid4 :: "nat \<Rightarrow> string"
  clock :: "nat \<Rightarrow> rat"
  round2 :: "rat \<Rightarrow> rat"
  b64decode :: "string \<Rightarrow> exn + bytes"
  b64encode :: "bytes \<Rightarrow> string"

section \<open>Python helpers\<close>

text \<open>
  \<open>str.lower()\<close> on the ASCII letters; every other byte is kept. The handlers compare the
  result with \<open>"true"\<close> and \<open>"webp"\<close> only, and no character outside ASCII lowercases to
  a letter of these two words.
\<close>

definition lower_char :: "char \<Rightarrow> char" where
  "lower_char c =
     (if 65 \<le> (of_char c :: nat) \<and> (of_char c :: nat) \<le> 90
      then char_of ((of_char c :: nat) + 32) else c)"

definition lower :: "string \<Rightarrow> string" where
  "lower s = map lower_char s"

fun starts_with :: "string \<Rightarrow> string \<Rightarrow> bool" where
  "starts_with s [] = True"
| "starts_with [] (p # ps) = False"
| "starts_with (c # cs) (p # ps) = (c = p \<and> starts_with cs ps)"

text \<open>\<open>p in s\<close> for two strings: \<open>p\<close> occurs in \<open>s\<close> as a substring.\<close>

fun substring_of :: "string \<Rightarrow> string \<Rightarrow> bool" where
  "substring_of p [] = (p = [])"
| "substring_of p (c # cs) = (starts_with (c # cs) p \<or> substring_of p cs)"

definition quoted :: "string \<Rightarrow> string" where
  "quoted s = [CHR 0x27] @ s @ [CHR 0x27]"

definition type_name :: "json \<Rightarrow> string" where
  "type_name v =
     quoted (case v of JNull \<Rightarrow> ''NoneType'' | JBool b \<Rightarrow> ''bool'' | JInt i \<Rightarrow> ''int''
      | JFloat r \<Rightarrow> ''float'' | JStr s \<Rightarrow> ''str'' | JArr xs \<Rightarrow> ''list'' | JObj kvs \<Rightarrow> ''dict'')"

text \<open>\<open>key in v\<close> for a string \<open>key\<close> and a parsed JSON value \<open>v\<close>.\<close>

definition py_in :: "string \<Rightarrow> json \<Rightarrow> exn + bool" where
  "py_in key v =
     (case v of
        JStr s \<Rightarrow> Inr (substring_of key s)
      | JArr xs \<Rightarrow> Inr (JStr key \<in> set xs)
      | JObj kvs \<Rightarrow> Inr (map_of kvs key \<noteq> None)
      | _ \<Rightarrow> Inl (TypeError (''argument of type '' @ type_name v @ '' is not iterable'')))"

text \<open>\<open>v[key]\<close> for a string \<open>key\<close>.\<close>

definition py_getitem :: "json \<Rightarrow> string \<Rightarrow> exn + json" where
  "py_getitem v key =
     (case v of
        JObj kvs \<Rightarrow>
          (case map_of kvs key of
             Some x \<Rightarrow> Inr x
           | None \<Rightarrow> Inl (Exception ''KeyError'' key))
      | JStr s \<Rightarrow> Inl (TypeError ''string indices must be integers'')
      | JArr xs \<Rightarrow> Inl (TypeError ''list indices must be integers or slices, not str'')
      | _ \<Rightarrow> Inl (TypeError (type_name v @ '' object is not subscriptable'')))"

text \<open>\<open>base64.b64decode(v)\<close>: only a string reaches the decoder.\<close>

definition py_b64decode :: "('h, 'i) env \<Rightarrow> json \<Rightarrow> exn + bytes" where
  "py_b64decode env v =
     (case v of
        JStr s \<Rightarrow> b64decode env s
      | _ \<Rightarrow> Inl (TypeError
          (''argument should be a bytes-like object or ASCII string, not '' @ type_name v)))"

text \<open>\<open>d.get(key, default)\<close> on a multi-dict of strings.\<close>

definition args_get :: "(string \<times> string) list \<Rightarrow> string \<Rightarrow> string \<Rightarrow> string" where
  "args_get d key dflt = (case map_of d key of Some v \<Rightarrow> v | None \<Rightarrow> dflt)"

section \<open>Module level\<close>

definition MODEL_NAME :: "('h, 'i) env \<Rightarrow> string" where
  "MODEL_NAME env = (case environ env ''REMBG_MODEL'' of Some v \<Rightarrow> v | None \<Rightarrow> ''u2net'')"

text \<open>The state right after the module has been loaded.\<close>

definition initial :: "(string \<rightharpoonup> bytes) \<Rightarrow> 'h state" where
  "initial dir = \<lparr>session = None, outputs = dir, logged = [], clock_reads = 0, uuid_draws = 0\<rparr>"

definition get_session :: "('h, 'i) env \<Rightarrow> 'h state \<Rightarrow> (exn + 'h) \<times> 'h state" where
  "get_session env st =
     (case session st of
        Some h \<Rightarrow> (Inr h, st)
      | None \<Rightarrow>
          (let st1 = st\<lparr>logged := logged st @ [Info_loading (MODEL_NAME env)]\<rparr> in
           case new_session env (MODEL_NAME env) of
             Inl e \<Rightarrow> (Inl e, st1)
           | Inr h \<Rightarrow> (Inr h, st1\<lparr>session := Some h, logged := logged st1 @ [Info_loaded]\<rparr>)))"

definition time_time :: "('h, 'i) env \<Rightarrow> 'h state \<Rightarrow> rat \<times> 'h state" where
  "time_time env st = (clock env (clock_reads st), st\<lparr>clock_reads := Suc (clock_reads st)\<rparr>)"

text \<open>\<open>str(uuid.uuid4())[:8]\<close>\<close>

definition new_file_id :: "('h, 'i) env \<Rightarrow> 'h state \<Rightarrow> string \<times> 'h state" where
  "new_file_id env st = (take 8 (uuid4 env (uuid_draws st)), st\<lparr>uuid_draws := Suc (uuid_draws st)\<rparr>)"

text \<open>
  \<open>img.save(os.path.join(OUTPUT_DIR, name), fmt)\<close>: the file is opened for writing, the
  image is encoded and the bytes become the content of the file, replacing what a file of
  that name held. A failure of either step raises; the model then leaves the directory as
  it was.
\<close>

definition save_path ::
  "('h, 'i) env \<Rightarrow> 'i \<Rightarrow> fmt \<Rightarrow> string \<Rightarrow> 'h state \<Rightarrow> exn option \<times> 'h state" where
  "save_path env img f name st =
     (case fs_write_error env name of
        Some e \<Rightarrow> (Some e, st)
      | None \<Rightarrow>
          (case image_save env img f of
             Inl e \<Rightarrow> (Some e, st)
           | Inr bs \<Rightarrow> (None, st\<lparr>outputs := (outputs st)(name \<mapsto> bs)\<rparr>)))"

definition error_json :: "string \<Rightarrow> json" where
  "error_json msg = JObj [(''error'', JStr msg)]"

text \<open>\<open>d.get(key, default)\<close> on a parsed JSON value.\<close>

definition py_get :: "json \<Rightarrow> string \<Rightarrow> json \<Rightarrow> exn + json" where
  "py_get v key dflt =
     (case v of
        JObj kvs \<Rightarrow> Inr (case map_of kvs key of Some x \<Rightarrow> x | None \<Rightarrow> dflt)
      | _ \<Rightarrow> Inl (Exception ''AttributeError''
                 (type_name v @ '' object has no attribute '' @ quoted ''get'')))"

text \<open>\<open>d.getlist(key)\<close> on a multi-dict.\<close>

definition getlist :: "(string \<times> 'a) list \<Rightarrow> string \<Rightarrow> 'a list" where
  "getlist d key = map snd (filter (\<lambda>kv. fst kv = key) d)"

section \<open>POST /remove\<close>

definition i_acute :: string where
  "i_acute = [CHR 0xC3, CHR 0xAD]"

definition msg_no_image :: string where
  "msg_no_image = ''Env'' @ i_acute @ ''a una imagen como '' @ quoted ''file'' @ '' o en base64''"

text \<open>
  Lines 89 to 101: where the image comes from. \<open>Got\<close> carries \<open>image_bytes\<close> and
  \<open>filename\<close>, \<open>Missing\<close> is the \<open>else\<close> branch, \<open>Raised\<close> an exception of these lines, which
  no \<open>try\<close> encloses.
\<close>

datatype image_input = Got bytes json | Missing | Raised exn

definition get_json :: "request \<Rightarrow> json" where
  "get_json req = (case body req of Some v \<Rightarrow> v | None \<Rightarrow> JNull)"

definition get_image :: "('h, 'i) env \<Rightarrow> request \<Rightarrow> image_input" where
  "get_image env req =
     (case map_of (files req) ''file'' of
        Some file \<Rightarrow>
          Got (content file)
              (JStr (case filename file of
                       None \<Rightarrow> ''image.png''
                     | Some n \<Rightarrow> if n = [] then ''image.png'' else n))
      | None \<Rightarrow>
          if is_json req then
            (case py_in ''image'' (get_json req) of
               Inl e \<Rightarrow> Raised e
             | Inr False \<Rightarrow> Missing
             | Inr True \<Rightarrow>
                 (case py_getitem (get_json req) ''image'' of
                    Inl e \<Rightarrow> Raised e
                  | Inr v \<Rightarrow>
                      (case py_b64decode env v of
                         Inl e \<Rightarrow> Raised e
                       | Inr image_bytes \<Rightarrow>
                           (case py_get (get_json req) ''filename'' (JStr ''image.png'') of
                              Inl e \<Rightarrow> Raised e
                            | Inr fname \<Rightarrow> Got image_bytes fname))))
          else Missing)"

text \<open>Lines 104 to 106: the three parameters, read from the query string.\<close>

definition alpha_matting_param :: "request \<Rightarrow> bool" where
  "alpha_matting_param req = (lower (args_get (args req) ''alpha_matting'' ''false'') = ''true'')"

definition output_format_param :: "request \<Rightarrow> string" where
  "output_format_param req = lower (args_get (args req) ''format'' ''png'')"

definition return_base64_param :: "request \<Rightarrow> bool" where
  "return_base64_param req = (lower (args_get (args req) ''base64'' ''false'') = ''true'')"

definition ext_of :: "string \<Rightarrow> string" where
  "ext_of output_format = (if output_format = ''webp'' then ''webp'' else ''png'')"

text \<open>Lines 138 to 160: the answer, once the file has been written.\<close>

definition respond ::
  "('h, 'i) env \<Rightarrow> 'i \<Rightarrow> string \<Rightarrow> string \<Rightarrow> rat \<Rightarrow> bool \<Rightarrow> exn + response" where
  "respond env result_img file_id ext elapsed return_base64 =
     (let out_filename = file_id @ ''.'' @ ext in
      if return_base64 then
        (case image_save env result_img PNG of
           Inl e \<Rightarrow> Inl e
         | Inr buf \<Rightarrow>
             Inr (JsonResp 200 (JObj [(''id'', JStr file_id), (''filename'', JStr out_filename),
                                      (''image'', JStr (b64encode env buf)),
                                      (''time'', JFloat elapsed)])))
      else if ext = ''webp'' then
        (case image_save env result_img WEBP of
           Inl e \<Rightarrow> Inl e
         | Inr buf \<Rightarrow> Inr (FileResp buf ''image/webp'' out_filename False))
      else
        (case image_save env result_img PNG of
           Inl e \<Rightarrow> Inl e
         | Inr buf \<Rightarrow> Inr (FileResp buf ''image/png'' out_filename False)))"

text \<open>Lines 124 to 160: from the decoded result to the answer.\<close>

definition store_and_respond ::
  "('h, 'i) env \<Rightarrow> 'i \<Rightarrow> json \<Rightarrow> string \<Rightarrow> bool \<Rightarrow> rat \<Rightarrow> 'h state
     \<Rightarrow> (exn + response) \<times> 'h state" where
  "store_and_respond env result_img fname output_format return_base64 start st =
     (let (file_id, st1) = new_file_id env st;
          ext = ext_of output_format;
          out_filename = file_id @ ''.'' @ ext
      in case save_path env result_img (if ext = ''webp'' then WEBP else PNG) out_filename st1 of
           (Some e, st2) \<Rightarrow> (Inl e, st2)
         | (None, st2) \<Rightarrow>
             (let (now, st3) = time_time env st2;
                  elapsed = round2 env (now - start);
                  st4 = st3\<lparr>logged := logged st3 @ [Info_done fname out_filename elapsed]\<rparr>
              in (respond env result_img file_id ext elapsed return_base64, st4)))"

text \<open>Lines 109 to 160: the body of the \<open>try\<close>.\<close>

definition process ::
  "('h, 'i) env \<Rightarrow> bytes \<Rightarrow> json \<Rightarrow> bool \<Rightarrow> string \<Rightarrow> bool \<Rightarrow> rat \<Rightarrow> 'h state
     \<Rightarrow> (exn + response) \<times> 'h state" where
  "process env image_bytes fname alpha_matting output_format return_base64 start st =
     (case get_session env st of
        (Inl e, st1) \<Rightarrow> (Inl e, st1)
      | (Inr sess, st1) \<Rightarrow>
          (case rembg_remove env image_bytes sess alpha_matting of
             Inl e \<Rightarrow> (Inl e, st1)
           | Inr result_bytes \<Rightarrow>
               (case image_open_rgba env result_bytes of
                  Inl e \<Rightarrow> (Inl e, st1)
                | Inr result_img \<Rightarrow>
                    store_and_respond env result_img fname output_format return_base64 start st1)))"

definition remove_bg :: "('h, 'i) env \<Rightarrow> request \<Rightarrow> 'h state \<Rightarrow> response \<times> 'h state" where
  "remove_bg env req st =
     (let (start, st0) = time_time env st in
      case get_image env req of
        Raised e \<Rightarrow> (Uncaught e, st0)
      | Missing \<Rightarrow> (JsonResp 400 (error_json msg_no_image), st0)
      | Got image_bytes fname \<Rightarrow>
          (case process env image_bytes fname (alpha_matting_param req)
                  (output_format_param req) (return_base64_param req) start st0 of
             (Inr r, st1) \<Rightarrow> (r, st1)
           | (Inl e, st1) \<Rightarrow>
               (JsonResp 500 (error_json (str_exn e)),
                st1\<lparr>logged := logged st1 @ [Error_msg (str_exn e)]\<rparr>)))"

section \<open>POST /remove/batch\<close>

definition msg_no_files_field :: string where
  "msg_no_files_field =
     ''Env'' @ i_acute @ ''a im'' @ [CHR 0xC3, CHR 0xA1] @ ''genes en el campo '' @ quoted ''files''"

definition none_or_str :: "string option \<Rightarrow> json" where
  "none_or_str s = (case s of None \<Rightarrow> JNull | Some n \<Rightarrow> JStr n)"

definition error_entry :: "upload \<Rightarrow> exn \<Rightarrow> json" where
  "error_entry file e =
     JObj [(''original'', none_or_str (filename file)), (''status'', JStr ''error''),
           (''error'', JStr (str_exn e))]"

definition ok_entry :: "upload \<Rightarrow> string \<Rightarrow> rat \<Rightarrow> json" where
  "ok_entry file file_id elapsed =
     JObj [(''original'', none_or_str (filename file)), (''id'', JStr file_id),
           (''filename'', JStr (file_id @ ''.png'')),
           (''download'', JStr (''/download/'' @ file_id)),
           (''time'', JFloat elapsed), (''status'', JStr ''ok'')]"

text \<open>One round of the loop of lines 180 to 207: the entry appended to \<open>results\<close>.\<close>

definition batch_item ::
  "('h, 'i) env \<Rightarrow> 'h \<Rightarrow> upload \<Rightarrow> 'h state \<Rightarrow> json \<times> 'h state" where
  "batch_item env sess file st =
     (let (start, st0) = time_time env st in
      case rembg_remove env (content file) sess False of
        Inl e \<Rightarrow> (error_entry file e, st0)
      | Inr result_bytes \<Rightarrow>
          (case image_open_rgba env result_bytes of
             Inl e \<Rightarrow> (error_entry file e, st0)
           | Inr result_img \<Rightarrow>
               (let (file_id, st1) = new_file_id env st0 in
                case save_path env result_img PNG (file_id @ ''.png'') st1 of
                  (Some e, st2) \<Rightarrow> (error_entry file e, st2)
                | (None, st2) \<Rightarrow>
                    (let (now, st3) = time_time env st2
                     in (ok_entry file file_id (round2 env (now - start)), st3)))))"

fun batch_loop ::
  "('h, 'i) env \<Rightarrow> 'h \<Rightarrow> upload list \<Rightarrow> json list \<Rightarrow> 'h state \<Rightarrow> json list \<times> 'h state" where
  "batch_loop env sess [] results st = (results, st)"
| "batch_loop env sess (file # rest) results st =
     (case batch_item env sess file st of
        (entry, st1) \<Rightarrow> batch_loop env sess rest (results @ [entry]) st1)"

definition remove_bg_batch ::
  "('h, 'i) env \<Rightarrow> request \<Rightarrow> 'h state \<Rightarrow> response \<times> 'h state" where
  "remove_bg_batch env req st =
     (if map_of (files req) ''files'' = None
      then (JsonResp 400 (error_json msg_no_files_field), st)
      else if getlist (files req) ''files'' = []
      then (JsonResp 400 (error_json ''No se recibieron archivos''), st)
      else
        (case get_session env st of
           (Inl e, st1) \<Rightarrow> (Uncaught e, st1)
         | (Inr sess, st1) \<Rightarrow>
             (case batch_loop env sess (getlist (files req) ''files'') [] st1 of
                (results, st2) \<Rightarrow>
                  (JsonResp 200 (JObj [(''processed'', JInt (int (length results))),
                                       (''results'', JArr results)]), st2))))"

section \<open>GET /download/<file_id>, GET / and GET /health\<close>

definition mimetype_of :: "string \<Rightarrow> string" where
  "mimetype_of ext = ''image/'' @ ext"

fun probe :: "(string \<rightharpoonup> bytes) \<Rightarrow> string \<Rightarrow> string list \<Rightarrow> response" where
  "probe dir file_id [] = JsonResp 404 (error_json ''Archivo no encontrado'')"
| "probe dir file_id (ext # exts) =
     (case dir (file_id @ ''.'' @ ext) of
        Some bs \<Rightarrow> FileResp bs (mimetype_of ext) (file_id @ ''.'' @ ext) True
      | None \<Rightarrow> probe dir file_id exts)"

definition download :: "'h state \<Rightarrow> string \<Rightarrow> response" where
  "download st file_id = probe (outputs st) file_id [''png'', ''webp'']"

definition health :: "('h, 'i) env \<Rightarrow> response" where
  "health env = JsonResp 200 (JObj [(''status'', JStr ''healthy''), (''model'', JStr (MODEL_NAME env))])"

definition home :: "('h, 'i) env \<Rightarrow> response" where
  "home env =
     JsonResp 200 (JObj
       [(''name'', JStr ''BG Remover API''), (''version'', JStr ''1.0.0''),
        (''model'', JStr (MODEL_NAME env)),
        (''endpoints'', JObj
           [(''POST /remove'', JStr ''Quitar fondo (recibe imagen, devuelve PNG)''),
            (''POST /remove/batch'',
               JStr (''Quitar fondo a m'' @ [CHR 0xC3, CHR 0xBA] @ ''ltiples im''
                     @ [CHR 0xC3, CHR 0xA1] @ ''genes'')),
            (''GET /download/<id>'', JStr ''Descargar imagen procesada''),
            (''GET /health'', JStr ''Health check'')])])"

section \<open>The application as a whole\<close>

text \<open>A request that reaches one of the five routes, and the server answering a sequence of them.\<close>

datatype call =
    Get_home
  | Get_health
  | Post_remove request
  | Post_remove_batch request
  | Get_download string

fun serve :: "('h, 'i) env \<Rightarrow> call \<Rightarrow> 'h state \<Rightarrow> response \<times> 'h state" where
  "serve env Get_home st = (home env, st)"
| "serve env Get_health st = (health env, st)"
| "serve env (Post_remove req) st = remove_bg env req st"
| "serve env (Post_remove_batch req) st = remove_bg_batch env req st"
| "serve env (Get_download file_id) st = (download st file_id, st)"



section \<open>Notions used in the statements\<close>


text \<open>A member of a JSON object.\<close>

fun json_field :: "string \<Rightarrow> json \<Rightarrow> json option" where
  "json_field key (JObj kvs) = map_of kvs key"
| "json_field key v = None"

text \<open>What processing one uploaded file raises in the batch loop when its output file can be
  written: the exception of rembg, of PIL's decoder or of the PNG encoder, if any.\<close>

definition item_error :: "('h, 'i) env \<Rightarrow> 'h \<Rightarrow> upload \<Rightarrow> exn option" where
  "item_error env sess file =
     (case rembg_remove env (content file) sess False of
        Inl e \<Rightarrow> Some e
      | Inr result_bytes \<Rightarrow>
          (case image_open_rgba env result_bytes of
             Inl e \<Rightarrow> Some e
           | Inr result_img \<Rightarrow>
               (case image_save env result_img PNG of
                  Inl e \<Rightarrow> Some e
                | Inr bs \<Rightarrow> None)))"

definition expected_status :: "('h, 'i) env \<Rightarrow> 'h \<Rightarrow> upload \<Rightarrow> json option" where
  "expected_status env sess file =
     Some (JStr (case item_error env sess file of None \<Rightarrow> ''ok'' | Some e \<Rightarrow> ''error''))"

definition expected_error :: "('h, 'i) env \<Rightarrow> 'h \<Rightarrow> upload \<Rightarrow> json option" where
  "expected_error env sess file =
     (case item_error env sess file of None \<Rightarrow> None | Some e \<Rightarrow> Some (JStr (str_exn e)))"

text \<open>The identifier the next call of \<open>uuid.uuid4()\<close> yields, and the name of the file
  \<open>remove_bg\<close> then writes.\<close>

definition minted_id :: "('h, 'i) env \<Rightarrow> 'h state \<Rightarrow> string" where
  "minted_id env st = take 8 (uuid4 env (uuid_draws st))"


section \<open>Stand-ins for the libraries and concrete requests\<close>

text \<open>
  A small environment on which the handlers can be run: the session is the number 0, rembg
  rejects empty input and otherwise returns it, an image is its bytes, and the encoders put
  one byte in front (1 for PNG, 2 for WEBP). \<open>colliding_env\<close> differs in the random
  generator only: its first two UUIDs agree on their first eight characters.
  \<open>failing_env\<close> cannot construct a session.
\<close>

definition stub_env :: "(nat, bytes) env" where
  "stub_env =
     \<lparr>environ = Map.empty,
      new_session = (\<lambda>name. Inr 0),
      rembg_remove = (\<lambda>b h am. if b = [] then Inl (Exception ''ValueError'' ''empty image'') else Inr b),
      image_open_rgba = (\<lambda>b. Inr b),
      image_save = (\<lambda>img f. Inr ((case f of PNG \<Rightarrow> 1 | WEBP \<Rightarrow> 2) # img)),
      fs_write_error = (\<lambda>name. None),
      uuid4 = (\<lambda>n. if n = 0 then ''1b9d6bcd-bbfd-4b2d-9b5d-ab8dfbbd4bed''
                    else if n = 1 then ''9c858901-8a57-4791-81fe-4c455b099bc9''
                    else ''6ec0bd7f-11c0-43da-975e-2a8ad9ebae0b''),
      clock = (\<lambda>n. of_nat n),
      round2 = (\<lambda>x. x),
      b64decode = (\<lambda>s. Inr (map (\<lambda>c. of_nat (of_char c)) s)),
      b64encode = (\<lambda>b. map (\<lambda>w. char_of (unat w)) b)\<rparr>"


definition failing_env :: "(nat, bytes) env" where
  "failing_env =
     stub_env\<lparr>new_session := (\<lambda>name. Inl (Exception ''ValueError'' ''no such model''))\<rparr>"

definition upload_request :: "string \<Rightarrow> bytes \<Rightarrow> (string \<times> string) list \<Rightarrow> request" where
  "upload_request name bs query =
     \<lparr>files = [(''file'', \<lparr>filename = Some name, content = bs\<rparr>)],
      args = query, is_json = False, body = None\<rparr>"

definition json_request :: "json option \<Rightarrow> request" where
  "json_request b = \<lparr>files = [], args = [], is_json = True, body = b\<rparr>"

definition batch_request :: request where
  "batch_request =
     \<lparr>files = [(''files'', \<lparr>filename = Some ''a.png'', content = [1]\<rparr>),
               (''files'', \<lparr>filename = Some ''b.png'', content = []\<rparr>),
               (''files'', \<lparr>filename = Some ''c.png'', content = [3]\<rparr>)],
      args = [], is_json = False, body = None\<rparr>"



section \<open>What each step does to the state\<close>


lemma get_session_frame:
  assumes "get_session env st = (r, st1)"
  shows "outputs st1 = outputs st \<and> clock_reads st1 = clock_reads st \<and> uuid_draws st1 = uuid_draws st"
  using assms by (auto simp: get_session_def Let_def split: option.splits sum.splits)

lemma get_session_ok:
  assumes "get_session env st = (Inr h, st1)"
  shows "session st1 = Some h"
  using assms by (auto simp: get_session_def Let_def split: option.splits sum.splits)


lemma time_time_frame:
  "time_time env st = (t, st1) \<Longrightarrow>
     session st1 = session st \<and> logged st1 = logged st \<and> outputs st1 = outputs st
     \<and> uuid_draws st1 = uuid_draws st"
  by (auto simp: time_time_def)

lemma new_file_id_frame:
  "new_file_id env st = (i, st1) \<Longrightarrow>
     i = take 8 (uuid4 env (uuid_draws st)) \<and>
     session st1 = session st \<and> logged st1 = logged st \<and> outputs st1 = outputs st"
  by (auto simp: new_file_id_def)

lemma save_path_frame:
  "save_path env img f name st = (r, st1) \<Longrightarrow>
     session st1 = session st \<and> logged st1 = logged st \<and> uuid_draws st1 = uuid_draws st"
  by (auto simp: save_path_def split: option.splits sum.splits)

lemma save_path_ok:
  "save_path env img f name st = (None, st1) \<Longrightarrow>
     \<exists>bs. image_save env img f = Inr bs \<and> fs_write_error env name = None
        \<and> outputs st1 = (outputs st)(name \<mapsto> bs)"
  by (auto simp: save_path_def split: option.splits sum.splits)


lemma store_and_respond_success:
  assumes "store_and_respond env img fname output_format rb start st = (Inr r, st1)"
  shows "\<exists>stored elapsed.
           image_save env img (if ext_of output_format = ''webp'' then WEBP else PNG) = Inr stored
         \<and> outputs st1 = (outputs st)(take 8 (uuid4 env (uuid_draws st)) @ ''.'' @ ext_of output_format \<mapsto> stored)
         \<and> respond env img (take 8 (uuid4 env (uuid_draws st))) (ext_of output_format) elapsed rb = Inr r"
  using assms
  by (auto simp: store_and_respond_def Let_def time_time_def new_file_id_def
      split: prod.splits option.splits dest!: save_path_ok)

section \<open>What a request to /remove is read for\<close>

lemma store_and_respond_ext:
  "ext_of f1 = ext_of f2 \<Longrightarrow>
     store_and_respond env img fname f1 rb start st = store_and_respond env img fname f2 rb start st"
  by (simp add: store_and_respond_def)

lemma process_ext:
  "ext_of f1 = ext_of f2 \<Longrightarrow>
     process env b fname am f1 rb start st = process env b fname am f2 rb start st"
  by (auto simp: process_def store_and_respond_ext[of f1 f2] split: prod.splits sum.splits)

lemma get_image_cong:
  "files r1 = files r2 \<Longrightarrow> is_json r1 = is_json r2 \<Longrightarrow> body r1 = body r2 \<Longrightarrow>
     get_image env r1 = get_image env r2"
  by (auto simp: get_image_def get_json_def split: option.splits sum.splits bool.splits)

lemma remove_bg_cong:
  assumes "files r1 = files r2" "is_json r1 = is_json r2" "body r1 = body r2"
    and "alpha_matting_param r1 = alpha_matting_param r2"
    and "ext_of (output_format_param r1) = ext_of (output_format_param r2)"
    and "return_base64_param r1 = return_base64_param r2"
  shows "remove_bg env r1 st = remove_bg env r2 st"
  unfolding remove_bg_def
  by (simp only: get_image_cong[OF assms(1-3)] assms(4,6) process_ext[OF assms(5)])

section \<open>A successful /remove\<close>

lemma remove_bg_success:
  assumes "remove_bg env req st = (r, st1)" and "status_code r = 200"
  shows "\<exists>img stored elapsed.
           image_save env img (if ext_of (output_format_param req) = ''webp'' then WEBP else PNG)
             = Inr stored
         \<and> outputs st1 =
             (outputs st)(take 8 (uuid4 env (uuid_draws st)) @ ''.'' @ ext_of (output_format_param req)
                \<mapsto> stored)
         \<and> respond env img (take 8 (uuid4 env (uuid_draws st))) (ext_of (output_format_param req))
               elapsed (return_base64_param req) = Inr r"
proof -
  obtain start st0 where t: "time_time env st = (start, st0)"
    by (cases "time_time env st")
  have f0: "outputs st0 = outputs st" "uuid_draws st0 = uuid_draws st"
    using time_time_frame[OF t] by simp_all
  from assms t obtain b fname where g: "get_image env req = Got b fname"
    by (cases "get_image env req") (auto simp: remove_bg_def)
  from assms t g obtain
    p: "process env b fname (alpha_matting_param req) (output_format_param req)
          (return_base64_param req) start st0 = (Inr r, st1)"
    by (auto simp: remove_bg_def split: prod.splits sum.splits)
  from p obtain sess st2 img where
    s: "get_session env st0 = (Inr sess, st2)" and
    sr: "store_and_respond env img fname (output_format_param req) (return_base64_param req) start st2
           = (Inr r, st1)"
    by (auto simp: process_def split: prod.splits sum.splits)
  have f2: "outputs st2 = outputs st0" "uuid_draws st2 = uuid_draws st0"
    using get_session_frame[OF s] by simp_all
  from store_and_respond_success[OF sr] show ?thesis
    unfolding f2 f0 by blast
qed

section \<open>The session across requests\<close>

lemma batch_item_frame:
  "batch_item env sess file st = (entry, st1) \<Longrightarrow> session st1 = session st \<and> logged st1 = logged st"
  by (auto simp: batch_item_def Let_def time_time_def new_file_id_def
      split: prod.splits sum.splits option.splits dest!: save_path_frame)

lemma batch_loop_frame:
  "batch_loop env sess fs acc st = (results, st1) \<Longrightarrow> session st1 = session st \<and> logged st1 = logged st"
proof (induction fs arbitrary: acc st)
  case Nil
  then show ?case by simp
next
  case (Cons f fs)
  obtain entry st' where b: "batch_item env sess f st = (entry, st')"
    by (cases "batch_item env sess f st")
  with Cons.prems have "batch_loop env sess fs (acc @ [entry]) st' = (results, st1)"
    by simp
  from Cons.IH[OF this] batch_item_frame[OF b] show ?case by simp
qed








section \<open>The batch loop\<close>

lemma batch_item_entry:
  assumes "\<And>name. fs_write_error env name = None"
  shows "json_field ''original'' (fst (batch_item env sess file st)) = Some (none_or_str (filename file))"
    and "json_field ''status'' (fst (batch_item env sess file st)) = expected_status env sess file"
    and "json_field ''error'' (fst (batch_item env sess file st)) = expected_error env sess file"
  using assms
  by (auto simp: batch_item_def item_error_def expected_status_def expected_error_def
      error_entry_def ok_entry_def save_path_def time_time_def new_file_id_def
      split: sum.splits prod.splits option.splits)

lemma batch_loop_fields:
  assumes "\<And>name. fs_write_error env name = None"
  shows "map (json_field ''original'') (fst (batch_loop env sess fs acc st))
           = map (json_field ''original'') acc @ map (\<lambda>f. Some (none_or_str (filename f))) fs
       \<and> map (json_field ''status'') (fst (batch_loop env sess fs acc st))
           = map (json_field ''status'') acc @ map (expected_status env sess) fs
       \<and> map (json_field ''error'') (fst (batch_loop env sess fs acc st))
           = map (json_field ''error'') acc @ map (expected_error env sess) fs"
proof (induction fs arbitrary: acc st)
  case Nil
  then show ?case by simp
next
  case (Cons f fs)
  obtain entry st' where b: "batch_item env sess f st = (entry, st')"
    by (cases "batch_item env sess f st")
  have e: "json_field ''original'' entry = Some (none_or_str (filename f))"
          "json_field ''status'' entry = expected_status env sess f"
          "json_field ''error'' entry = expected_error env sess f"
    using batch_item_entry[OF assms, of sess f st] b by simp_all
  show ?case
    using Cons.IH[of "acc @ [entry]" st'] b e by simp
qed

lemma getlist_empty_iff: "getlist d key = [] \<longleftrightarrow> map_of d key = None"
  by (induction d) (auto simp: getlist_def)

lemma remove_bg_batch_ok:
  assumes "getlist (files req) ''files'' \<noteq> []"
    and "get_session env st = (Inr sess, st1)"
  shows "fst (remove_bg_batch env req st) =
           JsonResp 200 (JObj
             [(''processed'',
                 JInt (int (length (fst (batch_loop env sess (getlist (files req) ''files'') [] st1))))),
              (''results'', JArr (fst (batch_loop env sess (getlist (files req) ''files'') [] st1)))])"
  using assms
  by (simp add: remove_bg_batch_def getlist_empty_iff split: prod.splits)

section \<open>Parameters that are not read\<close>





lemma params_body:
  "alpha_matting_param (req\<lparr>body := b\<rparr>) = alpha_matting_param req"
  "output_format_param (req\<lparr>body := b\<rparr>) = output_format_param req"
  "return_base64_param (req\<lparr>body := b\<rparr>) = return_base64_param req"
  by (simp_all add: alpha_matting_param_def output_format_param_def return_base64_param_def)

lemma get_image_extra_field:
  assumes "body req = Some (JObj kvs)" and "key \<noteq> ''image''" and "key \<noteq> ''filename''"
  shows "get_image env (req\<lparr>body := Some (JObj ((key, v) # kvs))\<rparr>) = get_image env req"
proof -
  have j: "get_json (req\<lparr>body := Some (JObj ((key, v) # kvs))\<rparr>) = JObj ((key, v) # kvs)"
          "get_json req = JObj kvs"
    using assms(1) by (simp_all add: get_json_def)
  have p: "py_in ''image'' (JObj ((key, v) # kvs)) = py_in ''image'' (JObj kvs)"
          "py_getitem (JObj ((key, v) # kvs)) ''image'' = py_getitem (JObj kvs) ''image''"
          "py_get (JObj ((key, v) # kvs)) ''filename'' d = py_get (JObj kvs) ''filename'' d" for d
    using assms(2,3) by (simp_all add: py_in_def py_getitem_def py_get_def)
  show ?thesis
    unfolding get_image_def j p by simp
qed

lemma remove_bg_extra_field:
  assumes "body req = Some (JObj kvs)" and "key \<noteq> ''image''" and "key \<noteq> ''filename''"
  shows "remove_bg env (req\<lparr>body := Some (JObj ((key, v) # kvs))\<rparr>) st = remove_bg env req st"
  unfolding remove_bg_def
  by (simp only: get_image_extra_field[OF assms] params_body)


section \<open>The answer and the download\<close>




section \<open>Running the handlers\<close>

lemma lower_examples:
  "lower ''WebP'' = ''webp''" "lower ''TRUE'' = ''true''" "lower ''webp'' = ''webp''"
  "lower ''true'' = ''true''" "lower ''png'' = ''png''" "lower ''false'' = ''false''"
  "lower ''gif'' = ''gif''"
  by code_simp+

lemmas run_defs =
  remove_bg_def upload_request_def initial_def stub_env_def time_time_def
  get_image_def process_def get_session_def MODEL_NAME_def store_and_respond_def
  new_file_id_def save_path_def respond_def ext_of_def Let_def
  alpha_matting_param_def output_format_param_def return_base64_param_def args_get_def
  lower_examples


lemma params_format_png:
  "alpha_matting_param (req\<lparr>args := (''format'', ''png'') # args req\<rparr>) = alpha_matting_param req"
  "output_format_param (req\<lparr>args := (''format'', ''png'') # args req\<rparr>) = ''png''"
  "return_base64_param (req\<lparr>args := (''format'', ''png'') # args req\<rparr>) = return_base64_param req"
  by (simp_all add: alpha_matting_param_def output_format_param_def return_base64_param_def
      args_get_def lower_examples)

section \<open>Failures the handlers report\<close>

text \<open>
  What the handlers answer when they report a failure themselves: a JSON body with an
  \<open>error\<close> string. The only other answers that are not status 200 are exceptions that
  leave the handler.
\<close>

lemma respond_status: "respond env img file_id ext elapsed rb = Inr r \<Longrightarrow> status_code r = 200"
  by (auto simp: respond_def Let_def split: if_splits sum.splits)

lemma process_status:
  "process env b fname am f rb start st = (Inr r, st1) \<Longrightarrow> status_code r = 200"
  by (auto simp: process_def store_and_respond_def Let_def
      split: prod.splits sum.splits option.splits dest: respond_status)

lemma error_json_body: "has_error_body (JsonResp code (error_json msg))"
  by (simp add: error_json_def)

lemma remove_bg_handled:
  assumes "remove_bg env req st = (r, st1)" and "status_code r \<noteq> 200"
  shows "has_error_body r \<or> (\<exists>e. r = Uncaught e \<and> get_image env req = Raised e)"
proof (cases "get_image env req")
  case (Got b fname)
  with assms show ?thesis
    by (auto simp: remove_bg_def error_json_body split: prod.splits sum.splits
        dest: process_status)
next
  case Missing
  with assms show ?thesis
    by (auto simp: remove_bg_def error_json_body split: prod.splits)
next
  case (Raised e)
  with assms show ?thesis
    by (auto simp: remove_bg_def split: prod.splits)
qed

lemma remove_bg_batch_handled:
  assumes "remove_bg_batch env req st = (r, st1)" and "status_code r \<noteq> 200"
  shows "has_error_body r \<or> (\<exists>e. r = Uncaught e \<and> fst (get_session env st) = Inl e)"
  using assms
  by (auto simp: remove_bg_batch_def error_json_body split: if_splits prod.splits sum.splits)

lemma download_handled:
  "status_code (download st file_id) \<noteq> 200 \<Longrightarrow> has_error_body (download st file_id)"
  by (auto simp: download_def error_json_body split: option.splits)

lemma serve_handled:
  assumes "serve env c st = (r, st1)" and "status_code r \<noteq> 200"
  shows "has_error_body r \<or> (\<exists>e. r = Uncaught e)"
  using assms
  by (cases c)
     (auto simp: home_def health_def dest: remove_bg_handled remove_bg_batch_handled download_handled)

text \<open>
  The \<open>else\<close> branch of line 100: no \<open>file\<close> part, and either no JSON content type or a
  JSON object without the member \<open>image\<close>.
\<close>

lemma remove_bg_missing_image:
  assumes "map_of (files req) ''file'' = None"
    and "\<not> is_json req \<or> (\<exists>kvs. body req = Some (JObj kvs) \<and> map_of kvs ''image'' = None)"
  shows "fst (remove_bg env req st) = JsonResp 400 (error_json msg_no_image)"
proof -
  from assms have "get_image env req = Missing"
    by (auto simp: get_image_def get_json_def py_in_def)
  then show ?thesis
    by (simp add: remove_bg_def split: prod.splits)
qed

section \<open>The session is created once\<close>



section \<open>POST /remove/batch: one failing file\<close>

text \<open>
  C2. Take a batch request with the files \<open>fs\<close> whose session can be obtained and whose
  output directory can be written. If processing file \<open>k\<close> raises \<open>e\<close> and processing
  every other file raises nothing, the answer is status 200 with \<open>processed\<close> equal to
  the number of files and one result per file, in the order of the upload (the
  \<open>original\<close> members are the file names in that order); result \<open>k\<close> has status
  \<open>error\<close> and carries \<open>str(e)\<close>, every other result has status \<open>ok\<close>. Indices
  count from 0 here.
\<close>

theorem batch_isolates_failing_item:
  assumes fs: "getlist (files req) ''files'' = fs"
    and k: "k < length fs"
    and sess: "fst (get_session env st) = Inr sess"
    and writable: "\<forall>name. fs_write_error env name = None"
    and bad: "item_error env sess (fs ! k) = Some e"
    and good: "\<forall>i<length fs. i \<noteq> k \<longrightarrow> item_error env sess (fs ! i) = None"
  shows "\<exists>results.
           fst (remove_bg_batch env req st) =
             JsonResp 200 (JObj [(''processed'', JInt (int (length fs))), (''results'', JArr results)])
         \<and> length results = length fs
         \<and> map (json_field ''original'') results = map (\<lambda>f. Some (none_or_str (filename f))) fs
         \<and> map (json_field ''status'') results =
             map (\<lambda>i. Some (JStr (if i = k then ''error'' else ''ok''))) [0..<length fs]
         \<and> json_field ''error'' (results ! k) = Some (JStr (str_exn e))"
proof -
  obtain st1 where gs: "get_session env st = (Inr sess, st1)"
    using sess by (cases "get_session env st") simp
  define results where "results = fst (batch_loop env sess fs [] st1)"
  from k fs have ne: "getlist (files req) ''files'' \<noteq> []" by auto
  have w: "\<And>name. fs_write_error env name = None" using writable by simp
  note bl = batch_loop_fields[OF w, where sess=sess and fs=fs and acc="[]" and st=st1,
      simplified, folded results_def]
  have len: "length results = length fs"
    using bl by (metis length_map)
  have st: "map (expected_status env sess) fs =
              map (\<lambda>i. Some (JStr (if i = k then ''error'' else ''ok''))) [0..<length fs]"
    using bad good by (auto simp: expected_status_def intro!: nth_equalityI)
  have "map (json_field ''error'') results ! k = expected_error env sess (fs ! k)"
    using bl k by simp
  then have er: "json_field ''error'' (results ! k) = Some (JStr (str_exn e))"
    using k len bad by (simp add: expected_error_def)
  have "fst (remove_bg_batch env req st) =
          JsonResp 200 (JObj [(''processed'', JInt (int (length fs))), (''results'', JArr results)])"
    using remove_bg_batch_ok[OF ne gs] fs len by (simp add: results_def)
  with len bl st er show ?thesis by auto
qed

text \<open>Three files, the second one empty and therefore rejected by the stand-in for rembg.\<close>

theorem batch_isolates_failing_item_witness:
  "item_error stub_env 0 (getlist (files batch_request) ''files'' ! 0) = None
   \<and> item_error stub_env 0 (getlist (files batch_request) ''files'' ! 1)
        = Some (Exception ''ValueError'' ''empty image'')
   \<and> item_error stub_env 0 (getlist (files batch_request) ''files'' ! 2) = None
   \<and> (\<exists>results.
         fst (remove_bg_batch stub_env batch_request (initial Map.empty)) =
           JsonResp 200 (JObj [(''processed'', JInt 3), (''results'', JArr results)])
       \<and> map (json_field ''original'') results
           = [Some (JStr ''a.png''), Some (JStr ''b.png''), Some (JStr ''c.png'')]
       \<and> map (json_field ''status'') results
           = [Some (JStr ''ok''), Some (JStr ''error''), Some (JStr ''ok'')]
       \<and> json_field ''error'' (results ! 1) = Some (JStr ''empty image''))"
proof -
  define fs where "fs = getlist (files batch_request) ''files''"
  have fs: "fs = [\<lparr>filename = Some ''a.png'', content = [1]\<rparr>,
                  \<lparr>filename = Some ''b.png'', content = []\<rparr>,
                  \<lparr>filename = Some ''c.png'', content = [3]\<rparr>]"
    by (simp add: fs_def batch_request_def getlist_def)
  have e0: "item_error stub_env 0 (fs ! 0) = None"
    and e1: "item_error stub_env 0 (fs ! 1) = Some (Exception ''ValueError'' ''empty image'')"
    and e2: "item_error stub_env 0 (fs ! 2) = None"
    by (simp_all add: fs item_error_def stub_env_def)
  have k: "1 < length fs" by (simp add: fs)
  have s: "fst (get_session stub_env (initial Map.empty)) = Inr 0"
    by (simp add: get_session_def initial_def stub_env_def)
  have w: "\<forall>name. fs_write_error stub_env name = None"
    by (simp add: stub_env_def)
  have good: "\<forall>i<length fs. i \<noteq> 1 \<longrightarrow> item_error stub_env 0 (fs ! i) = None"
  proof (intro allI impI)
    fix i assume "i < length fs" "i \<noteq> 1"
    then have "i = 0 \<or> i = 2" by (auto simp: fs)
    with e0 e2 show "item_error stub_env 0 (fs ! i) = None" by auto
  qed
  have up: "[0..<length fs] = [0, 1, 2]" by (simp add: fs upt_rec)
  from batch_isolates_failing_item[OF fs_def[symmetric] k s w e1 good] e0 e1 e2
  show ?thesis
    unfolding up fs_def[symmetric] by (auto simp: fs none_or_str_def)
qed

section \<open>POST /remove: the stored file and the download that follows\<close>




section \<open>POST /remove: formats other than webp\<close>

text \<open>
  C4. A \<open>format\<close> parameter whose lowercased value is not \<open>webp\<close> is treated as
  \<open>png\<close>: the handler answers and changes the state exactly as it does for
  \<open>format=png\<close> (so the value alone never makes it reject the request), the extension is
  \<open>png\<close>, and when the answer has status 200 the file \<open>{id}.png\<close> holds a PNG encoding.
\<close>

theorem unrecognised_format_falls_back_to_png:
  assumes "map_of (args req) ''format'' = Some f" and "lower f \<noteq> ''webp''"
  shows "remove_bg env req st = remove_bg env (req\<lparr>args := (''format'', ''png'') # args req\<rparr>) st
       \<and> ext_of (output_format_param req) = ''png''
       \<and> (status_code (fst (remove_bg env req st)) = 200 \<longrightarrow>
            (\<exists>img stored.
               image_save env img PNG = Inr stored
             \<and> outputs (snd (remove_bg env req st)) (minted_id env st @ ''.png'') = Some stored))"
proof -
  have of: "output_format_param req = lower f"
    using assms(1) by (simp add: output_format_param_def args_get_def)
  with assms(2) have ext: "ext_of (output_format_param req) = ''png''"
    by (simp add: ext_of_def)
  have same: "remove_bg env req st = remove_bg env (req\<lparr>args := (''format'', ''png'') # args req\<rparr>) st"
    by (rule remove_bg_cong) (simp_all add: params_format_png ext, simp add: ext_of_def)
  have stored: "\<exists>img stored.
               image_save env img PNG = Inr stored
             \<and> outputs (snd (remove_bg env req st)) (minted_id env st @ ''.png'') = Some stored"
    if ok: "status_code (fst (remove_bg env req st)) = 200"
  proof -
    have run: "remove_bg env req st = (fst (remove_bg env req st), snd (remove_bg env req st))"
      by simp
    from remove_bg_success[OF run ok] show ?thesis
      by (auto simp: ext minted_id_def)
  qed
  from same ext stored show ?thesis by blast
qed

text \<open>An upload with \<open>format=gif\<close>.\<close>

theorem unrecognised_format_falls_back_to_png_witness:
  "map_of (args (upload_request ''cat.png'' [7, 7] [(''format'', ''gif'')])) ''format'' = Some ''gif''
   \<and> lower ''gif'' \<noteq> ''webp''
   \<and> status_code (fst (remove_bg stub_env (upload_request ''cat.png'' [7, 7] [(''format'', ''gif'')])
        (initial Map.empty))) = 200
   \<and> fst (remove_bg stub_env (upload_request ''cat.png'' [7, 7] [(''format'', ''gif'')])
        (initial Map.empty))
      = FileResp [1, 7, 7] ''image/png'' ''1b9d6bcd.png'' False
   \<and> (\<exists>img stored.
         image_save stub_env img PNG = Inr stored
       \<and> outputs (snd (remove_bg stub_env (upload_request ''cat.png'' [7, 7] [(''format'', ''gif'')])
            (initial Map.empty))) ''1b9d6bcd.png'' = Some stored)"
proof -
  let ?req = "upload_request ''cat.png'' [7, 7] [(''format'', ''gif'')]"
  let ?st = "initial Map.empty :: nat state"
  have a: "map_of (args ?req) ''format'' = Some ''gif''"
    by (simp add: upload_request_def)
  have b: "lower ''gif'' \<noteq> ''webp''"
    by (simp add: lower_examples)
  have r: "fst (remove_bg stub_env ?req ?st) = FileResp [1, 7, 7] ''image/png'' ''1b9d6bcd.png'' False"
    by (simp add: run_defs)
  have m: "minted_id stub_env ?st = ''1b9d6bcd''"
    by (simp add: minted_id_def stub_env_def initial_def)
  have ok: "status_code (fst (remove_bg stub_env ?req ?st)) = 200"
    by (simp add: r)
  from unrecognised_format_falls_back_to_png[OF a b, of stub_env ?st] ok
  have "\<exists>img stored.
         image_save stub_env img PNG = Inr stored
       \<and> outputs (snd (remove_bg stub_env ?req ?st)) (minted_id stub_env ?st @ ''.png'') = Some stored"
    by blast
  then have "\<exists>img stored.
         image_save stub_env img PNG = Inr stored
       \<and> outputs (snd (remove_bg stub_env ?req ?st)) ''1b9d6bcd.png'' = Some stored"
    by (simp add: m)
  with a b ok r show ?thesis by blast
qed

section \<open>POST /remove without an image\<close>

text \<open>
  C5 at a request the code mishandles: the content type is JSON, there is no \<open>file\<close>
  part, and the body does not parse (or is \<open>null\<close>). \<open>get_json(silent=True)\<close> yields
  \<open>None\<close>, the test \<open>"image" in None\<close> raises \<open>TypeError\<close> outside the
  \<open>try\<close>, and the request ends with status 500 and no JSON error body instead of the
  400 of the \<open>else\<close> branch.
\<close>

theorem remove_bg_unparsable_json_escapes:
  "fst (remove_bg env (json_request None) st)
     = Uncaught (TypeError (''argument of type '' @ quoted ''NoneType'' @ '' is not iterable''))
   \<and> fst (remove_bg env (json_request (Some JNull)) st)
     = Uncaught (TypeError (''argument of type '' @ quoted ''NoneType'' @ '' is not iterable''))
   \<and> map_of (files (json_request None)) ''file'' = None
   \<and> status_code (fst (remove_bg env (json_request None) st)) = 500
   \<and> \<not> has_error_body (fst (remove_bg env (json_request None) st))"
  by (simp add: remove_bg_def json_request_def time_time_def get_image_def get_json_def
      py_in_def type_name_def)

section \<open>GET /download: the order of the probes\<close>

text \<open>
  C6. For every id, \<open>download\<close> looks for \<open>{id}.png\<close> first and for \<open>{id}.webp\<close> second
  and sends the content of the first file that exists, as an attachment; when neither
  exists the answer is status 404 with a JSON body that carries an \<open>error\<close> string.
\<close>

theorem download_probes_png_then_webp:
  "download st file_id =
     (case outputs st (file_id @ ''.png'') of
        Some bs \<Rightarrow> FileResp bs ''image/png'' (file_id @ ''.png'') True
      | None \<Rightarrow>
          (case outputs st (file_id @ ''.webp'') of
             Some bs \<Rightarrow> FileResp bs ''image/webp'' (file_id @ ''.webp'') True
           | None \<Rightarrow> JsonResp 404 (error_json ''Archivo no encontrado'')))
   \<and> status_code (JsonResp 404 (error_json ''Archivo no encontrado'')) = 404
   \<and> has_error_body (JsonResp 404 (error_json ''Archivo no encontrado''))"
  by (simp add: download_def mimetype_of_def error_json_def split: option.splits)

section \<open>Failures without a JSON body\<close>

text \<open>
  C7 at a request the code mishandles: a JSON body whose \<open>image\<close> member is a number.
  \<open>base64.b64decode\<close> raises on line 98, which no \<open>try\<close> encloses, so the failure
  reaches the client as status 500 without a JSON error body.
\<close>

theorem remove_bg_bad_image_field_escapes:
  "fst (remove_bg env (json_request (Some (JObj [(''image'', JInt 5)]))) st)
     = Uncaught (TypeError (''argument should be a bytes-like object or ASCII string, not ''
                            @ quoted ''int''))
   \<and> status_code (fst (remove_bg env (json_request (Some (JObj [(''image'', JInt 5)]))) st)) = 500
   \<and> \<not> has_error_body (fst (remove_bg env (json_request (Some (JObj [(''image'', JInt 5)]))) st))"
  by (simp add: remove_bg_def json_request_def time_time_def get_image_def get_json_def
      py_in_def py_getitem_def py_b64decode_def type_name_def)

section \<open>Where the options are read\<close>

text \<open>
  C8 at a request the code mishandles: the options are members of the JSON body and the
  query string is empty. The handler answers and changes the state exactly as it does for
  the body without them: for every JSON request without a query string the format is
  \<open>png\<close> and both flags are false, since lines 104 to 106 read \<open>request.args\<close> only.
\<close>

theorem json_body_options_are_ignored:
  "remove_bg env (json_request (Some (JObj [(''format'', JStr ''webp''), (''base64'', JStr ''true''),
                                            (''alpha_matting'', JStr ''true''), (''image'', JStr s)]))) st
     = remove_bg env (json_request (Some (JObj [(''image'', JStr s)]))) st
   \<and> output_format_param (json_request b) = ''png''
   \<and> \<not> return_base64_param (json_request b)
   \<and> \<not> alpha_matting_param (json_request b)"
proof -
  let ?r0 = "json_request (Some (JObj [(''image'', JStr s)]))"
  let ?r1 = "?r0\<lparr>body := Some (JObj [(''alpha_matting'', JStr ''true''), (''image'', JStr s)])\<rparr>"
  let ?r2 = "?r1\<lparr>body := Some (JObj [(''base64'', JStr ''true''), (''alpha_matting'', JStr ''true''),
                                      (''image'', JStr s)])\<rparr>"
  let ?r3 = "?r2\<lparr>body := Some (JObj [(''format'', JStr ''webp''), (''base64'', JStr ''true''),
                                      (''alpha_matting'', JStr ''true''), (''image'', JStr s)])\<rparr>"
  have "remove_bg env ?r1 st = remove_bg env ?r0 st"
    by (rule remove_bg_extra_field) (simp_all add: json_request_def)
  moreover have "remove_bg env ?r2 st = remove_bg env ?r1 st"
    by (rule remove_bg_extra_field) (simp_all add: json_request_def)
  moreover have "remove_bg env ?r3 st = remove_bg env ?r2 st"
    by (rule remove_bg_extra_field) (simp_all add: json_request_def)
  moreover have "?r3 = json_request (Some (JObj [(''format'', JStr ''webp''), (''base64'', JStr ''true''),
                                            (''alpha_matting'', JStr ''true''), (''image'', JStr s)]))"
    by (simp add: json_request_def)
  ultimately have "remove_bg env (json_request (Some (JObj [(''format'', JStr ''webp''), (''base64'', JStr ''true''),
                                            (''alpha_matting'', JStr ''true''), (''image'', JStr s)]))) st
     = remove_bg env ?r0 st" by simp
  then show ?thesis
    by (simp add: json_request_def output_format_param_def return_base64_param_def
        alpha_matting_param_def args_get_def lower_examples)
qed

section \<open>The boolean parameters\<close>

text \<open>
  C9. \<open>alpha_matting\<close> and \<open>base64\<close> are true exactly when the query string has the
  parameter and its lowercased value is the string \<open>true\<close>: \<open>TRUE\<close> and \<open>True\<close> are
  true; \<open>1\<close>, \<open>yes\<close>, \<open>True\<close> followed by a blank, and an absent parameter are false.
\<close>

theorem boolean_params_true_iff_lowercase_true:
  "alpha_matting_param req =
     (\<exists>v. map_of (args req) ''alpha_matting'' = Some v \<and> lower v = ''true'')
   \<and> return_base64_param req =
     (\<exists>v. map_of (args req) ''base64'' = Some v \<and> lower v = ''true'')
   \<and> lower ''TRUE'' = ''true'' \<and> lower ''True'' = ''true''
   \<and> lower ''1'' \<noteq> ''true'' \<and> lower ''yes'' \<noteq> ''true'' \<and> lower ''True '' \<noteq> ''true''"
proof -
  have d: "lower ''false'' \<noteq> ''true''" by (simp add: lower_examples)
  have e: "lower ''TRUE'' = ''true''" "lower ''True'' = ''true''" "lower ''1'' \<noteq> ''true''"
    "lower ''yes'' \<noteq> ''true''" "lower ''True '' \<noteq> ''true''"
    by code_simp+
  show ?thesis
    using d e
    by (simp add: alpha_matting_param_def return_base64_param_def args_get_def
        split: option.splits)
qed

section \<open>POST /remove/batch: the session is obtained before the loop\<close>

text \<open>
  C10. For a batch request with at least one file: when no session is held and
  \<open>new_session\<close> raises \<open>e\<close>, the handler lets \<open>e\<close> escape; there are no results, and the
  state changes by the log record of the attempt only. When \<open>get_session\<close> returns a
  session, the loop runs with that one session for every file and logs nothing, so the
  log and the session after the request are those right after \<open>get_session\<close>.
\<close>

theorem batch_gets_session_once_outside_try:
  assumes "map_of (files req) ''files'' \<noteq> None"
  shows "(session st = None \<and> new_session env (MODEL_NAME env) = Inl e \<longrightarrow>
            remove_bg_batch env req st =
              (Uncaught e, st\<lparr>logged := logged st @ [Info_loading (MODEL_NAME env)]\<rparr>))
       \<and> (get_session env st = (Inr sess, st1) \<longrightarrow>
            remove_bg_batch env req st =
              (case batch_loop env sess (getlist (files req) ''files'') [] st1 of
                 (results, st2) \<Rightarrow>
                   (JsonResp 200 (JObj [(''processed'', JInt (int (length results))),
                                        (''results'', JArr results)]), st2))
          \<and> logged (snd (remove_bg_batch env req st)) = logged st1
          \<and> session (snd (remove_bg_batch env req st)) = Some sess)"
proof (intro conjI impI)
  assume "session st = None \<and> new_session env (MODEL_NAME env) = Inl e"
  with assms show "remove_bg_batch env req st =
      (Uncaught e, st\<lparr>logged := logged st @ [Info_loading (MODEL_NAME env)]\<rparr>)"
    by (simp add: remove_bg_batch_def get_session_def getlist_empty_iff)
next
  assume gs: "get_session env st = (Inr sess, st1)"
  with assms show run: "remove_bg_batch env req st =
      (case batch_loop env sess (getlist (files req) ''files'') [] st1 of
         (results, st2) \<Rightarrow>
           (JsonResp 200 (JObj [(''processed'', JInt (int (length results))),
                                (''results'', JArr results)]), st2))"
    by (auto simp: remove_bg_batch_def getlist_empty_iff)
  obtain results st2 where
    bl: "batch_loop env sess (getlist (files req) ''files'') [] st1 = (results, st2)"
    by (cases "batch_loop env sess (getlist (files req) ''files'') [] st1")
  from run bl have s: "snd (remove_bg_batch env req st) = st2" by simp
  from batch_loop_frame[OF bl] s
  show "logged (snd (remove_bg_batch env req st)) = logged st1" by simp
  from batch_loop_frame[OF bl] s get_session_ok[OF gs]
  show "session (snd (remove_bg_batch env req st)) = Some sess" by simp
qed

text \<open>
  The same three files with an environment that cannot construct a session, and with one
  that can.
\<close>

theorem batch_gets_session_once_outside_try_witness:
  "map_of (files batch_request) ''files'' \<noteq> None
   \<and> session (initial Map.empty :: nat state) = None
   \<and> new_session failing_env (MODEL_NAME failing_env) = Inl (Exception ''ValueError'' ''no such model'')
   \<and> fst (remove_bg_batch failing_env batch_request (initial Map.empty))
       = Uncaught (Exception ''ValueError'' ''no such model'')
   \<and> outputs (snd (remove_bg_batch failing_env batch_request (initial Map.empty))) = Map.empty
   \<and> logged (snd (remove_bg_batch failing_env batch_request (initial Map.empty)))
       = [Info_loading ''u2net'']
   \<and> fst (get_session stub_env (initial Map.empty)) = Inr 0
   \<and> logged (snd (remove_bg_batch stub_env batch_request (initial Map.empty)))
       = [Info_loading ''u2net'', Info_loaded]
   \<and> session (snd (remove_bg_batch stub_env batch_request (initial Map.empty))) = Some 0"
proof -
  let ?st = "initial Map.empty :: nat state"
  have a: "map_of (files batch_request) ''files'' \<noteq> None"
    by (simp add: batch_request_def)
  have b: "session ?st = None"
    by (simp add: initial_def)
  have c: "new_session failing_env (MODEL_NAME failing_env) = Inl (Exception ''ValueError'' ''no such model'')"
    by (simp add: failing_env_def)
  have g: "get_session stub_env ?st = (Inr 0, snd (get_session stub_env ?st))"
    by (simp add: get_session_def initial_def stub_env_def)
  have l: "logged (snd (get_session stub_env ?st)) = [Info_loading ''u2net'', Info_loaded]"
    by (simp add: get_session_def initial_def stub_env_def MODEL_NAME_def)
  note t1 = batch_gets_session_once_outside_try[OF a, where st = ?st and env = failing_env
      and e = "Exception ''ValueError'' ''no such model''"]
  note t2 = batch_gets_session_once_outside_try[OF a, where st = ?st and env = stub_env
      and sess = 0 and ?st1.0 = "snd (get_session stub_env ?st)", THEN conjunct2, rule_format, OF g]
  from t1 b c have f: "remove_bg_batch failing_env batch_request ?st =
      (Uncaught (Exception ''ValueError'' ''no such model''),
       ?st\<lparr>logged := logged ?st @ [Info_loading (MODEL_NAME failing_env)]\<rparr>)"
    by blast
  from t2 have s0: "logged (snd (remove_bg_batch stub_env batch_request ?st))
       = logged (snd (get_session stub_env ?st))"
     and s1: "session (snd (remove_bg_batch stub_env batch_request ?st)) = Some 0"
    by blast+
  from s0 l have s: "logged (snd (remove_bg_batch stub_env batch_request ?st))
       = [Info_loading ''u2net'', Info_loaded]"
    by simp
  have m: "MODEL_NAME failing_env = ''u2net''"
    by (simp add: MODEL_NAME_def failing_env_def stub_env_def)
  from f have f1: "fst (remove_bg_batch failing_env batch_request ?st)
       = Uncaught (Exception ''ValueError'' ''no such model'')"
    and f2: "outputs (snd (remove_bg_batch failing_env batch_request ?st)) = Map.empty"
    and f3: "logged (snd (remove_bg_batch failing_env batch_request ?st)) = [Info_loading ''u2net'']"
    by (simp_all add: m initial_def)
  from g have g1: "fst (get_session stub_env ?st) = Inr 0"
    by (metis fst_conv)
  from a b c f1 f2 f3 g1 s s1 show ?thesis
    by blast
qed

end
